theory Spec2Isabelle
  imports Main "HOL-Library.Word" "HOL-Library.Multiset"
begin

section \<open>JavaScript values and runtime functions\<close>

text \<open>
  The application is a React component (\<^verbatim>\<open>src/App.tsx\<close>) with two helpers under
  \<^verbatim>\<open>src/\<close>: the metadata extractor (\<^verbatim>\<open>src/metadataService.ts\<close>) and the
  metadata viewer (\<^verbatim>\<open>src/unnamed/part_000\<close>). Strings are character lists, an
  \<^verbatim>\<open>ArrayBuffer\<close> is a list of bytes, \<^verbatim>\<open>null\<close> and \<^verbatim>\<open>undefined\<close> are \<open>None\<close>.
\<close>

type_synonym byte = "8 word"
type_synonym ArrayBuffer = "byte list"

text \<open>A \<^verbatim>\<open>Date\<close> object holds a time value in milliseconds, or NaN (\<open>None\<close>).\<close>

type_synonym JsDate = "int option"

text \<open>\<^verbatim>\<open>new Date(t)\<close> for an integral number \<open>t\<close>: the time value is clipped to NaN
  beyond 8.64e15 ms.\<close>

definition newDate :: "int \<Rightarrow> JsDate" where
  "newDate t = (if \<bar>t\<bar> \<le> 8640000000000000 then Some t else None)"

text \<open>Values of type \<^verbatim>\<open>any\<close> that the code only tests for truthiness.\<close>

datatype JsVal = JsUndefined | JsString string | JsNumber int | JsObject

fun truthy :: "JsVal \<Rightarrow> bool" where
  "truthy JsUndefined = False"
| "truthy (JsString s) = (s \<noteq> [])"
| "truthy (JsNumber n) = (n \<noteq> 0)"
| "truthy JsObject = True"

text \<open>Truthiness of a value of type \<^verbatim>\<open>string | null | undefined\<close>.\<close>

fun truthyStr :: "string option \<Rightarrow> bool" where
  "truthyStr None = False"
| "truthyStr (Some s) = (s \<noteq> [])"

text \<open>\<^verbatim>\<open>String.prototype.startsWith\<close> and \<^verbatim>\<open>String.prototype.includes\<close>.\<close>

fun startsWith :: "string \<Rightarrow> string \<Rightarrow> bool" where
  "startsWith s [] = True"
| "startsWith [] (p # ps) = False"
| "startsWith (c # cs) (p # ps) = (c = p \<and> startsWith cs ps)"

fun str_includes :: "string \<Rightarrow> string \<Rightarrow> bool" where
  "str_includes [] p = (p = [])"
| "str_includes (c # cs) p = (startsWith (c # cs) p \<or> str_includes cs p)"

text \<open>\<^verbatim>\<open>Number.prototype.toString\<close> on an integer (below 1e21 in magnitude): its decimal
  digits, with a sign when negative.\<close>

definition digit_char :: "nat \<Rightarrow> char" where
  "digit_char d = ''0123456789'' ! d"

function show_nat :: "nat \<Rightarrow> string" where
  "show_nat n = (if n < 10 then [digit_char n] else show_nat (n div 10) @ [digit_char (n mod 10)])"
  by pat_completeness auto
termination
  by (relation "measure id") auto

declare show_nat.simps [simp del]

definition show_int :: "int \<Rightarrow> string" where
  "show_int i = (if i < 0 then CHR ''-'' # show_nat (nat (- i)) else show_nat (nat i))"

text \<open>
  \<^verbatim>\<open>(num / den).toFixed(2)\<close> for a file size \<open>num\<close> and a power of two \<open>den\<close>. The
  quotient of an integer below \<open>2^53\<close> by a power of two is exact in double precision, and
  \<^verbatim>\<open>toFixed\<close> picks the integer \<open>n\<close> with \<open>n / 100\<close> closest to the exact value, the
  larger one on a tie; the digits of \<open>n\<close> are padded to three and split before the last two.
\<close>

definition toFixed2 :: "nat \<Rightarrow> nat \<Rightarrow> string" where
  "toFixed2 num den =
     (let n = (200 * num + den) div (2 * den)
      in show_nat (n div 100) @ ''.'' @ [digit_char (n mod 100 div 10), digit_char (n mod 10)])"

section \<open>Types of the application (\<^verbatim>\<open>./types\<close>, \<^verbatim>\<open>./services/web3Service\<close>)\<close>

text \<open>The declarations are not under \<^verbatim>\<open>src/\<close>; the shapes are those the object literals
  and field accesses of \<^verbatim>\<open>src/App.tsx\<close> use.\<close>

datatype AppStep = IDLE | ANALYZING | REVIEW | PROCESSING | CERTIFIED

type_synonym Metadata = "(string \<times> string) list"

record File =
  file_name :: string
  file_size :: nat
  file_type :: string
  file_lastModified :: int


record Web3ErrorDetail =
  title :: string
  description :: string
  solution :: "string option"

text \<open>A thrown value, as far as \<^verbatim>\<open>handleError\<close> inspects it.\<close>

record JsError =
  code :: JsVal
  info :: JsVal
  message :: "string option"

text \<open>
  What the model takes from outside the repository's sources: the runtime's
  \<^verbatim>\<open>Date.prototype.toUTCString\<close> and the error classifier \<^verbatim>\<open>resolveWeb3Error\<close> of
  \<^verbatim>\<open>./services/web3Service\<close>.
\<close>

record Runtime =
  toUTCString :: "JsDate \<Rightarrow> string"
  resolveWeb3Error :: "JsError \<Rightarrow> Web3ErrorDetail"

section \<open>The metadata extractor (\<^verbatim>\<open>src/metadataService.ts\<close>)\<close>

text \<open>
  The attribute map is a JavaScript object with string keys, none of them an array index:
  \<^verbatim>\<open>Object.entries\<close> lists it in insertion order. \<^verbatim>\<open>metadata[k] = v\<close> replaces the
  value of an existing key in place and appends a new key.
\<close>

fun assign :: "string \<Rightarrow> string \<Rightarrow> Metadata \<Rightarrow> Metadata" where
  "assign k v [] = [(k, v)]"
| "assign k v ((k', v') # m) = (if k' = k then (k, v) # m else (k', v') # assign k v m)"

text \<open>The information dictionary and the page tree of a PDF as the file holds them: the
  fields the document has.\<close>

record PdfInfo =
  infoTitle :: "string option"
  infoAuthor :: "string option"
  infoSubject :: "string option"
  infoCreator :: "string option"
  infoProducer :: "string option"
  infoCreationDate :: "JsDate option"
  infoModDate :: "JsDate option"
  infoPageCount :: nat

text \<open>The loaded \<^verbatim>\<open>PDFDocument\<close> of \<^verbatim>\<open>pdf-lib\<close>: the values its getters return (lines 27
  to 34).\<close>

record PdfDocument =
  getTitle :: "string option"
  getAuthor :: "string option"
  getSubject :: "string option"
  getCreator :: "string option"
  getProducer :: "string option"
  getCreationDate :: "JsDate option"
  getModificationDate :: "JsDate option"
  getPageCount :: nat

text \<open>
  \<^verbatim>\<open>PDFDocument.load(buffer, { ignoreEncryption: true })\<close> of line 25, on a file that
  parses to \<open>doc\<close>, at clock reading \<open>now\<close>. The call leaves the option
  \<^verbatim>\<open>updateMetadata\<close> at its default \<^verbatim>\<open>true\<close>, and \<^verbatim>\<open>pdf-lib\<close> then rewrites the
  information dictionary of the loaded document before any getter is called: the producer
  becomes the library's own name and the modification date the time of loading, and the
  creator and the creation date are set to the same when the getter finds none.
\<close>

definition pdfLibName :: string where
  "pdfLibName = ''pdf-lib (https://github.com/Hopding/pdf-lib)''"

definition load :: "int \<Rightarrow> PdfInfo \<Rightarrow> PdfDocument" where
  "load now doc =
     \<lparr>getTitle = infoTitle doc,
      getAuthor = infoAuthor doc,
      getSubject = infoSubject doc,
      getCreator = (if truthyStr (infoCreator doc) then infoCreator doc else Some pdfLibName),
      getProducer = Some pdfLibName,
      getCreationDate = (case infoCreationDate doc of
                           Some d \<Rightarrow> Some d
                         | None \<Rightarrow> Some (Some now)),
      getModificationDate = Some (Some now),
      getPageCount = infoPageCount doc\<rparr>"

text \<open>\<^verbatim>\<open>PDFDocument.load\<close> or one of the getters throws (lines 25 to 34, all before the
  first assignment of the \<^verbatim>\<open>try\<close> block), or the file parses to a document and \<^verbatim>\<open>load\<close>
  reads the clock.\<close>

datatype PdfOutcome = PdfThrows JsError | PdfLoaded int PdfInfo

text \<open>Lines 11 to 19: the attributes taken from the file descriptor.\<close>

definition systemMetadata :: "Runtime \<Rightarrow> File \<Rightarrow> Metadata" where
  "systemMetadata rt file =
     (let metadata = [];
          metadata = assign ''File Name'' (file_name file) metadata;
          metadata = assign ''File Size'' (toFixed2 (file_size file) 1024 @ '' KB'') metadata;
          metadata = assign ''MIME Type''
                       (if file_type file \<noteq> [] then file_type file else ''application/octet-stream'')
                       metadata;
          lastMod = newDate (file_lastModified file);
          metadata = assign ''Last Modified'' (toUTCString rt lastMod) metadata;
          metadata = assign ''Timestamp (Unix)'' (show_int (file_lastModified file)) metadata
      in metadata)"

text \<open>Lines 25 to 43: the body of the \<^verbatim>\<open>try\<close> block. A throw leaves the map as it was,
  since every call that can throw comes before the first assignment.\<close>

definition pdfInspection :: "Runtime \<Rightarrow> PdfOutcome \<Rightarrow> Metadata \<Rightarrow> JsError + Metadata" where
  "pdfInspection rt po metadata =
     (case po of
        PdfThrows e \<Rightarrow> Inl e
      | PdfLoaded now doc \<Rightarrow>
          (let pdfDoc = load now doc;
               metadata = (if truthyStr (getTitle pdfDoc)
                           then assign ''PDF Title'' (the (getTitle pdfDoc)) metadata else metadata);
               metadata = (if truthyStr (getAuthor pdfDoc)
                           then assign ''PDF Author'' (the (getAuthor pdfDoc)) metadata else metadata);
               metadata = (if truthyStr (getSubject pdfDoc)
                           then assign ''PDF Subject'' (the (getSubject pdfDoc)) metadata else metadata);
               metadata = (if truthyStr (getCreator pdfDoc)
                           then assign ''PDF Creator tool'' (the (getCreator pdfDoc)) metadata
                           else metadata);
               metadata = (if truthyStr (getProducer pdfDoc)
                           then assign ''PDF Producer'' (the (getProducer pdfDoc)) metadata
                           else metadata);
               metadata = (case getCreationDate pdfDoc of
                             Some creationDate \<Rightarrow>
                               assign ''PDF Creation Date'' (toUTCString rt creationDate) metadata
                           | None \<Rightarrow> metadata);
               metadata = (case getModificationDate pdfDoc of
                             Some modDate \<Rightarrow> assign ''PDF Mod Date'' (toUTCString rt modDate) metadata
                           | None \<Rightarrow> metadata);
               metadata = assign ''Page Count'' (show_nat (getPageCount pdfDoc)) metadata
           in Inr metadata))"

text \<open>\<^verbatim>\<open>extractMetadata\<close>: \<open>Inl\<close> would be a rejected promise. The \<open>PdfOutcome\<close> is
  consulted only for a file of type \<^verbatim>\<open>application/pdf\<close>.\<close>

definition extractMetadata :: "Runtime \<Rightarrow> File \<Rightarrow> PdfOutcome \<Rightarrow> JsError + Metadata" where
  "extractMetadata rt file po =
     (let metadata = systemMetadata rt file;
          metadata = (if file_type file = ''application/pdf'' then
                        (case pdfInspection rt po metadata of
                           Inr m \<Rightarrow> m
                         | Inl e \<Rightarrow> assign ''PDF Analysis'' ''Encrypted or Corrupted Structure'' metadata)
                      else metadata);
          metadata = (if startsWith (file_type file) ''image/''
                      then assign ''Image Analysis'' ''Bitmap Data Present'' metadata else metadata)
      in Inr metadata)"

section \<open>The metadata viewer (\<^verbatim>\<open>src/unnamed/part_000\<close>)\<close>

definition SENSITIVE_KEYS :: "string list" where
  "SENSITIVE_KEYS =
     [''PDF Author'', ''PDF Creator tool'', ''PDF Producer'', ''Author'', ''Creator'', ''Producer'',
      ''Last Modified By'']"

text \<open>Lines 23 and 24: the two filters over \<^verbatim>\<open>Object.entries(metadata)\<close>.\<close>

definition sensitiveData :: "Metadata \<Rightarrow> Metadata" where
  "sensitiveData md = filter (\<lambda>(key, val). key \<in> set SENSITIVE_KEYS) md"

definition generalData :: "Metadata \<Rightarrow> Metadata" where
  "generalData md = filter (\<lambda>(key, val). \<not> key \<in> set SENSITIVE_KEYS) md"

section \<open>The application state (\<^verbatim>\<open>src/App.tsx\<close>, lines 21 to 39)\<close>

record ForensicData =
  fileName :: string
  fileSize :: nat
  fileType :: string
  lastModified :: int
  hashSHA256 :: string
  hashSHA512 :: string
  timestamp :: string
  originalBuffer :: ArrayBuffer
  metadata :: Metadata

record WalletState =
  address :: "string option"
  isConnected :: bool
  chainId :: "int option"

datatype Signer = Signer string

datatype LogType = LogInfo | LogSuccess | LogWarning | LogError

text \<open>A log line; \<open>log_id\<close> is the reading of \<^verbatim>\<open>Date.now()\<close> when it was added.\<close>

record LogEntry =
  log_id :: int
  log_text :: string
  log_type :: LogType

datatype ReportType = JUDICIAL | SETTLEMENT

typedecl TradingReportData

text \<open>The \<^verbatim>\<open>useState\<close> cells of lines 21 to 38.\<close>

record AppState =
  step :: AppStep
  fileData :: "ForensicData option"
  wallet :: WalletState
  walletSigner :: "Signer option"
  logs :: "LogEntry list"
  txHash :: "string option"
  certifiedPdfUrl :: "string option"
  isBiometricScanning :: bool
  showMetadata :: bool
  showQRModal :: bool
  showReportConfig :: bool
  reportType :: ReportType
  errorDetails :: "Web3ErrorDetail option"
  isDarkMode :: bool

definition initialState :: AppState where
  "initialState =
     \<lparr>step = IDLE, fileData = None,
      wallet = \<lparr>address = None, isConnected = False, chainId = None\<rparr>,
      walletSigner = None, logs = [], txHash = None, certifiedPdfUrl = None,
      isBiometricScanning = False, showMetadata = False, showQRModal = False,
      showReportConfig = False, reportType = JUDICIAL, errorDetails = None, isDarkMode = True\<rparr>"

section \<open>Running a handler\<close>

text \<open>
  The services and browser functions a handler calls, with the arguments it passes. The
  services themselves (\<^verbatim>\<open>cryptoService\<close>, \<^verbatim>\<open>pdfService\<close>, \<^verbatim>\<open>whitepaperService\<close>,
  \<^verbatim>\<open>web3Service\<close>) are not under \<^verbatim>\<open>src/\<close>: what each call returns or throws is an
  argument of the handler that makes it.
\<close>

datatype ExtCall =
    CalculateHashes File
  | ExtractMetadata File ArrayBuffer
  | StampPdf ForensicData "string option"
  | CreateObjectURL ArrayBuffer string
  | Download string string
  | ConnectWallet
  | MintEvidenceNFT string Signer
  | GenerateAuditReport ForensicData "string option"
  | GenerateWhitePaper string string
  | GenerateJudicialReport ForensicData string TradingReportData
  | GenerateSettlementReport ForensicData string TradingReportData

text \<open>
  The run of one asynchronous handler, followed on its own from the state it is started in
  to its end: \<open>app\<close> is the state with the updates made so far, \<open>renders\<close> the states
  committed at the \<^verbatim>\<open>await\<close>s passed so far (what the components were rendered with while
  the handler was suspended), \<open>calls\<close> the calls made so far. A handler reads the state cells
  through the closure of the render it was created in: the state it is started in. The
  updates another handler makes while this one is suspended are not part of the run; the
  statements about a run hold from every start state.
\<close>

record Exec =
  app :: AppState
  renders :: "AppState list"
  calls :: "ExtCall list"

definition start :: "AppState \<Rightarrow> Exec" where
  "start s = \<lparr>app = s, renders = [], calls = []\<rparr>"

definition await :: "Exec \<Rightarrow> Exec" where
  "await x = x\<lparr>renders := renders x @ [app x]\<rparr>"

definition invoke :: "ExtCall \<Rightarrow> Exec \<Rightarrow> Exec" where
  "invoke c x = x\<lparr>calls := calls x @ [c]\<rparr>"

text \<open>The states a run shows: those committed at its suspension points, then the final one.\<close>

definition observable :: "Exec \<Rightarrow> AppState list" where
  "observable x = renders x @ [app x]"

definition setStep :: "AppStep \<Rightarrow> Exec \<Rightarrow> Exec" where
  "setStep v x = x\<lparr>app := (app x)\<lparr>step := v\<rparr>\<rparr>"

definition setFileData :: "ForensicData option \<Rightarrow> Exec \<Rightarrow> Exec" where
  "setFileData v x = x\<lparr>app := (app x)\<lparr>fileData := v\<rparr>\<rparr>"

definition setWallet :: "WalletState \<Rightarrow> Exec \<Rightarrow> Exec" where
  "setWallet v x = x\<lparr>app := (app x)\<lparr>wallet := v\<rparr>\<rparr>"

definition setWalletSigner :: "Signer option \<Rightarrow> Exec \<Rightarrow> Exec" where
  "setWalletSigner v x = x\<lparr>app := (app x)\<lparr>walletSigner := v\<rparr>\<rparr>"

definition setLogs :: "LogEntry list \<Rightarrow> Exec \<Rightarrow> Exec" where
  "setLogs v x = x\<lparr>app := (app x)\<lparr>logs := v\<rparr>\<rparr>"

definition setTxHash :: "string option \<Rightarrow> Exec \<Rightarrow> Exec" where
  "setTxHash v x = x\<lparr>app := (app x)\<lparr>txHash := v\<rparr>\<rparr>"

definition setCertifiedPdfUrl :: "string option \<Rightarrow> Exec \<Rightarrow> Exec" where
  "setCertifiedPdfUrl v x = x\<lparr>app := (app x)\<lparr>certifiedPdfUrl := v\<rparr>\<rparr>"

definition setIsBiometricScanning :: "bool \<Rightarrow> Exec \<Rightarrow> Exec" where
  "setIsBiometricScanning v x = x\<lparr>app := (app x)\<lparr>isBiometricScanning := v\<rparr>\<rparr>"

definition setShowMetadata :: "bool \<Rightarrow> Exec \<Rightarrow> Exec" where
  "setShowMetadata v x = x\<lparr>app := (app x)\<lparr>showMetadata := v\<rparr>\<rparr>"

definition setShowQRModal :: "bool \<Rightarrow> Exec \<Rightarrow> Exec" where
  "setShowQRModal v x = x\<lparr>app := (app x)\<lparr>showQRModal := v\<rparr>\<rparr>"

definition setShowReportConfig :: "bool \<Rightarrow> Exec \<Rightarrow> Exec" where
  "setShowReportConfig v x = x\<lparr>app := (app x)\<lparr>showReportConfig := v\<rparr>\<rparr>"

definition setReportType :: "ReportType \<Rightarrow> Exec \<Rightarrow> Exec" where
  "setReportType v x = x\<lparr>app := (app x)\<lparr>reportType := v\<rparr>\<rparr>"

definition setErrorDetails :: "Web3ErrorDetail option \<Rightarrow> Exec \<Rightarrow> Exec" where
  "setErrorDetails v x = x\<lparr>app := (app x)\<lparr>errorDetails := v\<rparr>\<rparr>"

definition setIsDarkMode :: "bool \<Rightarrow> Exec \<Rightarrow> Exec" where
  "setIsDarkMode v x = x\<lparr>app := (app x)\<lparr>isDarkMode := v\<rparr>\<rparr>"

section \<open>The handlers of \<^verbatim>\<open>src/App.tsx\<close>\<close>

text \<open>Every handler that logs takes \<open>clk\<close>, the readings of the system clock made for it.
  The index names the statement that asks for the reading, in the order of the source text;
  nothing is assumed about the order in time of two readings (React may run the updater of
  \<^verbatim>\<open>setLogs\<close>, and with it \<^verbatim>\<open>Date.now()\<close>, later than the call of \<^verbatim>\<open>addLog\<close>).\<close>

text \<open>Lines 47 to 50.\<close>

definition toggleTheme :: "AppState \<Rightarrow> Exec" where
  "toggleTheme s = setIsDarkMode True (start s)"

text \<open>Lines 52 to 54: \<open>now\<close> is \<^verbatim>\<open>Date.now()\<close>.\<close>

definition addLog :: "int \<Rightarrow> string \<Rightarrow> LogType \<Rightarrow> Exec \<Rightarrow> Exec" where
  "addLog now txt ty x =
     x\<lparr>app := (app x)\<lparr>logs := logs (app x) @ [\<lparr>log_id = now, log_text = txt, log_type = ty\<rparr>]\<rparr>\<rparr>"

text \<open>Lines 56 to 72 (\<^verbatim>\<open>console.error\<close> is left out).\<close>

definition handleError :: "Runtime \<Rightarrow> int \<Rightarrow> JsError \<Rightarrow> Exec \<Rightarrow> Exec" where
  "handleError rt now error x =
     (let details =
            (if truthy (code error) \<or> truthy (info error) \<or>
                (truthyStr (message error) \<and>
                  (str_includes (the (message error)) ''MetaMask'' \<or>
                   str_includes (the (message error)) ''wallet''))
             then resolveWeb3Error rt error
             else \<lparr>title = ''Operation Failed'',
                   description = (if truthyStr (message error) then the (message error)
                                  else ''An unexpected system error occurred.''),
                   solution = Some ''Please check your file and try again.''\<rparr>);
          x = setErrorDetails (Some details) x;
          x = addLog now (title details @ '': '' @ description details) LogError x
      in x)"

text \<open>What \<^verbatim>\<open>connectWallet\<close> resolves to.\<close>

record WalletConnection =
  conn_address :: string
  conn_chainId :: int
  conn_signer :: Signer

text \<open>Lines 74 to 91; \<open>wo\<close> is what \<^verbatim>\<open>connectWallet()\<close> throws or returns.\<close>

definition handleWalletConnect ::
  "Runtime \<Rightarrow> (nat \<Rightarrow> int) \<Rightarrow> JsError + WalletConnection \<Rightarrow> Exec \<Rightarrow> Exec" where
  "handleWalletConnect rt clk wo x =
     (let x = setErrorDetails None x;
          x = addLog (clk 0) ''Initializing Web3 handshake protocol...'' LogInfo x;
          x = invoke ConnectWallet x;
          x = await x
      in case wo of
           Inr c \<Rightarrow>
             (let x = setWallet \<lparr>address = Some (conn_address c), isConnected = True,
                                chainId = Some (conn_chainId c)\<rparr> x;
                  x = setWalletSigner (Some (conn_signer c)) x;
                  x = addLog (clk 1) (''Wallet Identity Verified: '' @ conn_address c) LogSuccess x;
                  x = addLog (clk 2) (''Network Detected: Chain ID '' @ show_int (conn_chainId c))
                        LogInfo x
              in x)
         | Inl error \<Rightarrow>
             (let x = handleError rt (clk 1) error x;
                  x = setWallet \<lparr>address = None, isConnected = False, chainId = None\<rparr> x;
                  x = setWalletSigner None x
              in x))"

text \<open>What \<^verbatim>\<open>calculateHashes\<close> resolves to (line 127).\<close>

record HashResult =
  sha256 :: string
  sha512 :: string
  arrayBuffer :: ArrayBuffer

definition MAX_SIZE_MB :: nat where
  "MAX_SIZE_MB = 50"

definition MAX_SIZE_BYTES :: nat where
  "MAX_SIZE_BYTES = MAX_SIZE_MB * 1024 * 1024"

text \<open>Lines 102 to 106: the error object of the size check.\<close>

definition capacityError :: "File \<Rightarrow> Web3ErrorDetail" where
  \<open>capacityError file =
     \<lparr>title = ''Storage Capacity Exceeded'',
      description = ''The file "'' @ file_name file @ ''" ('' @
                    toFixed2 (file_size file) (1024 * 1024) @ '' MB) exceeds the '' @
                    show_nat MAX_SIZE_MB @ ''MB safety limit.'',
      solution = Some ''Please compress the file or split it into smaller evidence packets.''\<rparr>\<close>

text \<open>
  Lines 93 to 160. \<open>ho\<close> is what \<^verbatim>\<open>calculateHashes(file)\<close> throws or returns, \<open>po\<close> what
  the PDF parser does inside \<^verbatim>\<open>extractMetadata\<close>. The timers of lines 124, 134 and 136
  only suspend the handler.
\<close>

definition processFile ::
  "Runtime \<Rightarrow> (nat \<Rightarrow> int) \<Rightarrow> File option \<Rightarrow> JsError + HashResult \<Rightarrow> PdfOutcome \<Rightarrow>
   AppState \<Rightarrow> Exec" where
  "processFile rt clk fileo ho po s =
     (case fileo of
        None \<Rightarrow> start s
      | Some file \<Rightarrow>
          (let x = setErrorDetails None (start s) in
           if file_size file > MAX_SIZE_BYTES then setErrorDetails (Some (capacityError file)) x
           else
             (let x = setCertifiedPdfUrl None x;
                  x = setTxHash None x;
                  x = setLogs [] x;
                  x = setStep ANALYZING x;
                  x = addLog (clk 0)
                        (''Ingesting Evidence: '' @ file_name file @ '' ['' @
                         toFixed2 (file_size file) 1024 @ '' KB]'') LogInfo x;
                  x = addLog (clk 1) ''Mounting Virtual File System...'' LogInfo x;
                  x = addLog (clk 2) ''Starting Client-Side Cryptographic Hashing...'' LogWarning x;
                  x = invoke (CalculateHashes file) x;
                  x = await x
              in case ho of
                   Inl error \<Rightarrow> setStep IDLE (handleError rt (clk 3) error x)
                 | Inr hashResult \<Rightarrow>
                     (let x = addLog (clk 3) ''Extracting File Metadata...'' LogInfo x;
                          x = invoke (ExtractMetadata file (arrayBuffer hashResult)) x;
                          x = await x
                      in case extractMetadata rt file po of
                           Inl error \<Rightarrow> setStep IDLE (handleError rt (clk 4) error x)
                         | Inr extracted \<Rightarrow>
                             (let x = await x;
                                  x = addLog (clk 4)
                                        ''Running Entropy Analysis (Shannon Algorithm)...'' LogInfo x;
                                  x = await x;
                                  x = addLog (clk 5)
                                        ''Scanning for Steganographic Injections...'' LogInfo x;
                                  data = \<lparr>fileName = file_name file,
                                          fileSize = file_size file,
                                          fileType = file_type file,
                                          lastModified = file_lastModified file,
                                          hashSHA256 = sha256 hashResult,
                                          hashSHA512 = sha512 hashResult,
                                          timestamp = toUTCString rt (Some (clk 6)),
                                          originalBuffer = arrayBuffer hashResult,
                                          metadata = extracted\<rparr>;
                                  x = setFileData (Some data) x;
                                  x = addLog (clk 7)
                                        (''SHA-256: '' @ take 16 (sha256 hashResult) @ ''...'')
                                        LogSuccess x;
                                  x = addLog (clk 8)
                                        (''SHA-512: '' @ take 16 (sha512 hashResult) @ ''...'')
                                        LogSuccess x;
                                  x = addLog (clk 9)
                                        ''Integrity Check Passed. No Anomalies Detected.''
                                        LogSuccess x;
                                  x = setStep REVIEW x
                              in x)))))"

text \<open>Lines 162 to 177: both input handlers pass the first file on, when there is one.\<close>

definition handleDrop ::
  "Runtime \<Rightarrow> (nat \<Rightarrow> int) \<Rightarrow> File list \<Rightarrow> JsError + HashResult \<Rightarrow> PdfOutcome \<Rightarrow>
   AppState \<Rightarrow> Exec" where
  "handleDrop rt clk files ho po s =
     (case files of [] \<Rightarrow> start s | file # rest \<Rightarrow> processFile rt clk (Some file) ho po s)"

definition handleFileInput ::
  "Runtime \<Rightarrow> (nat \<Rightarrow> int) \<Rightarrow> File list \<Rightarrow> JsError + HashResult \<Rightarrow> PdfOutcome \<Rightarrow>
   AppState \<Rightarrow> Exec" where
  "handleFileInput rt clk files ho po s =
     (case files of [] \<Rightarrow> start s | file # rest \<Rightarrow> processFile rt clk (Some file) ho po s)"

text \<open>
  Lines 179 to 217. \<open>so\<close> is what \<^verbatim>\<open>stampPdf\<close> throws or returns, consulted on the PDF
  branch only; \<open>url\<close> is what \<^verbatim>\<open>URL.createObjectURL\<close> returns. The bytes of the sealed
  buffer and the type of the blob are the arguments of the \<open>CreateObjectURL\<close> call.
\<close>

definition handleCertification ::
  "Runtime \<Rightarrow> (nat \<Rightarrow> int) \<Rightarrow> JsError + ArrayBuffer \<Rightarrow> string \<Rightarrow> AppState \<Rightarrow> Exec" where
  "handleCertification rt clk so url s =
     (case fileData s of
        None \<Rightarrow> start s
      | Some fd \<Rightarrow>
          (let x = setErrorDetails None (start s);
               x = setIsBiometricScanning True x;
               x = addLog (clk 0) ''Requesting Biometric Authorization...'' LogWarning x;
               x = await x;
               x = setIsBiometricScanning False x;
               x = setStep PROCESSING x;
               x = addLog (clk 1) ''Identity Confirmed. Access Granted.'' LogSuccess x;
               x = addLog (clk 2) ''Initializing Digital Stamping Engine...'' LogInfo x;
               (x, stamped) =
                 (if fileType fd = ''application/pdf'' then
                    (let x = addLog (clk 3) ''Injecting Visual Watermarks & Metadata...'' LogInfo x;
                         x = invoke (StampPdf fd (address (wallet s))) x;
                         x = await x
                     in (x, so))
                  else
                    (let x = addLog (clk 3)
                               ''Non-PDF detected. Generating standard forensic wrapper...''
                               LogWarning x
                     in (x, Inr (originalBuffer fd))))
           in case stamped of
                Inr stampedPdfBytes \<Rightarrow>
                  (let x = invoke (CreateObjectURL stampedPdfBytes
                                     (if fileType fd = ''application/pdf'' then ''application/pdf''
                                      else fileType fd)) x;
                       x = setCertifiedPdfUrl (Some url) x;
                       x = addLog (clk 4) ''Digital Seal Applied Successfully.'' LogSuccess x;
                       x = setStep CERTIFIED x
                   in x)
              | Inl error \<Rightarrow>
                  (let x = handleError rt (clk 4) error x;
                       x = setStep REVIEW x
                   in x)))"

text \<open>Lines 219 to 247. \<open>wo\<close> is what \<^verbatim>\<open>connectWallet\<close> does on the branch that asks for a
  wallet, \<open>mo\<close> what \<^verbatim>\<open>mintEvidenceNFT\<close> throws or returns (the transaction hash).\<close>

definition handleMinting ::
  "Runtime \<Rightarrow> (nat \<Rightarrow> int) \<Rightarrow> JsError + WalletConnection \<Rightarrow> JsError + string \<Rightarrow>
   AppState \<Rightarrow> Exec" where
  "handleMinting rt clk wo mo s =
     (let x = setErrorDetails None (start s) in
      if \<not> isConnected (wallet s) \<or> walletSigner s = None then
        (let x = setErrorDetails
                   (Some \<lparr>title = ''Authentication Required'',
                          description = ''A connected Web3 wallet is required to sign the blockchain transaction.'',
                          solution = Some ''Click the 'Connect Wallet' button in the top right corner.''\<rparr>) x;
             x = handleWalletConnect rt clk wo x
         in x)
      else
        (case fileData s of
           None \<Rightarrow> x
         | Some fd \<Rightarrow>
             (let x = addLog (clk 0) ''Constructing Blockchain Transaction...'' LogInfo x;
                  x = addLog (clk 1) ''Requesting User Signature...'' LogWarning x;
                  x = invoke (MintEvidenceNFT (hashSHA256 fd) (the (walletSigner s))) x;
                  x = await x
              in case mo of
                   Inr resultTxHash \<Rightarrow>
                     (let x = setTxHash (Some resultTxHash) x;
                          x = addLog (clk 2) ''Transaction Broadcasted to Network.'' LogSuccess x;
                          x = addLog (clk 3)
                                (''Evidence Immutable ID: '' @ take 20 resultTxHash @ ''...'')
                                LogSuccess x;
                          x = addLog (clk 4) ''PROOF OF EXISTENCE CONFIRMED.'' LogSuccess x
                      in x)
                 | Inl error \<Rightarrow> handleError rt (clk 2) error x)))"

text \<open>Lines 249 to 266; \<open>ro\<close> is what the report generator throws or returns.\<close>

definition downloadAuditReport ::
  "Runtime \<Rightarrow> (nat \<Rightarrow> int) \<Rightarrow> JsError + ArrayBuffer \<Rightarrow> string \<Rightarrow> AppState \<Rightarrow> Exec" where
  "downloadAuditReport rt clk ro url s =
     (case fileData s of
        None \<Rightarrow> start s
      | Some fd \<Rightarrow>
          (let x = addLog (clk 0) ''Generating Forensic Audit Report...'' LogInfo (start s);
               x = invoke (GenerateAuditReport fd (txHash s)) x;
               x = await x
           in case ro of
                Inr reportBytes \<Rightarrow>
                  (let x = invoke (CreateObjectURL reportBytes ''application/pdf'') x;
                       x = invoke (Download url (''AUDIT_REPORT_'' @ fileName fd @ ''.pdf'')) x;
                       x = addLog (clk 1) ''Report Downloaded.'' LogSuccess x
                   in x)
              | Inl error \<Rightarrow> handleError rt (clk 1) error x))"

text \<open>Lines 268 to 285.\<close>

definition downloadWhitePaper ::
  "Runtime \<Rightarrow> (nat \<Rightarrow> int) \<Rightarrow> JsError + ArrayBuffer \<Rightarrow> string \<Rightarrow> AppState \<Rightarrow> Exec" where
  "downloadWhitePaper rt clk ro url s =
     (case fileData s of
        None \<Rightarrow> start s
      | Some fd \<Rightarrow>
          (let x = addLog (clk 0) ''Compiling Technical White Paper...'' LogInfo (start s);
               x = invoke (GenerateWhitePaper (fileName fd) (hashSHA256 fd)) x;
               x = await x
           in case ro of
                Inr wpBytes \<Rightarrow>
                  (let x = invoke (CreateObjectURL wpBytes ''application/pdf'') x;
                       x = invoke (Download url (''WHITE_PAPER_ARCH_'' @ fileName fd @ ''.pdf'')) x;
                       x = addLog (clk 1) ''White Paper Generated.'' LogSuccess x
                   in x)
              | Inl error \<Rightarrow> handleError rt (clk 1) error x))"

text \<open>Lines 287 to 290.\<close>

definition openReportConfig :: "ReportType \<Rightarrow> AppState \<Rightarrow> Exec" where
  "openReportConfig ty s = setShowReportConfig True (setReportType ty (start s))"

definition reportTypeName :: "ReportType \<Rightarrow> string" where
  "reportTypeName ty = (case ty of JUDICIAL \<Rightarrow> ''JUDICIAL'' | SETTLEMENT \<Rightarrow> ''SETTLEMENT'')"

text \<open>Lines 292 to 322.\<close>

definition handleGenerateSpecializedReport ::
  "Runtime \<Rightarrow> (nat \<Rightarrow> int) \<Rightarrow> TradingReportData \<Rightarrow> JsError + ArrayBuffer \<Rightarrow> string \<Rightarrow>
   AppState \<Rightarrow> Exec" where
  "handleGenerateSpecializedReport rt clk reportData ro url s =
     (let x = setShowReportConfig False (start s) in
      case fileData s of
        None \<Rightarrow> x
      | Some fd \<Rightarrow>
          (let heading = (if reportType s = JUDICIAL then ''Judicial Peritaje''
                          else ''Settlement Agreement'');
               x = addLog (clk 0) (''Generating Specialized Report: '' @ heading @ ''...'') LogInfo x;
               walletAddr = (if truthyStr (address (wallet s)) then the (address (wallet s))
                             else ''0x0000000000000000000000000000000000000000'');
               x = (if reportType s = JUDICIAL
                    then invoke (GenerateJudicialReport fd walletAddr reportData) x
                    else invoke (GenerateSettlementReport fd walletAddr reportData) x);
               x = await x
           in case ro of
                Inr bytes \<Rightarrow>
                  (let x = invoke (CreateObjectURL bytes ''application/pdf'') x;
                       x = invoke (Download url (reportTypeName (reportType s) @ ''_REPORT_'' @
                                                 fileName fd @ ''.pdf'')) x;
                       x = addLog (clk 1) (heading @ '' Generated Successfully.'') LogSuccess x
                   in x)
              | Inl error \<Rightarrow> handleError rt (clk 1) error x))"

text \<open>Lines 324 to 333.\<close>

definition reset :: "AppState \<Rightarrow> Exec" where
  "reset s =
     (let x = setStep IDLE (start s);
          x = setFileData None x;
          x = setLogs [] x;
          x = setTxHash None x;
          x = setCertifiedPdfUrl None x;
          x = setErrorDetails None x;
          x = setShowMetadata False x;
          x = setShowQRModal False x
      in x)"

section \<open>The controls of the rendered page (lines 335 to 589)\<close>

text \<open>
  What the user can do. Each event carries what the calls of its handler will return. The
  components \<^verbatim>\<open>Header\<close>, \<^verbatim>\<open>Button\<close>, \<^verbatim>\<open>ForensicPanel\<close> and the modals are not under
  \<^verbatim>\<open>src/\<close>: a control is taken to fire its handler whenever it is rendered and, for a
  \<^verbatim>\<open>Button\<close>, not \<^verbatim>\<open>disabled\<close>.
\<close>

datatype UiEvent =
    DropFiles "nat \<Rightarrow> int" "File list" "JsError + HashResult" PdfOutcome
  | ChooseFiles "nat \<Rightarrow> int" "File list" "JsError + HashResult" PdfOutcome
  | ClickSeal "nat \<Rightarrow> int" "JsError + ArrayBuffer" string
  | ClickMint "nat \<Rightarrow> int" "JsError + WalletConnection" "JsError + string"
  | ClickConnect "nat \<Rightarrow> int" "JsError + WalletConnection"
  | ClickAuditReport "nat \<Rightarrow> int" "JsError + ArrayBuffer" string
  | ClickWhitePaper "nat \<Rightarrow> int" "JsError + ArrayBuffer" string
  | ClickReportConfig ReportType
  | SubmitReportConfig "nat \<Rightarrow> int" TradingReportData "JsError + ArrayBuffer" string
  | CloseReportConfig
  | ClickReset
  | ClickShowMetadata
  | CloseMetadata
  | ClickShowQR
  | CloseQR
  | AcknowledgeAlert
  | ClickToggleTheme

text \<open>Line 438: the dashboard with all its controls is rendered outside \<open>IDLE\<close> only; line
  393: the drop zone and the file input in \<open>IDLE\<close> only.\<close>

definition dashboardRendered :: "AppState \<Rightarrow> bool" where
  "dashboardRendered s = (step s \<noteq> IDLE)"

text \<open>Lines 475 to 498: the sealing button takes the place of the download link while there
  is no certified URL, and is \<^verbatim>\<open>disabled={step !== AppStep.REVIEW}\<close>.\<close>

definition sealButtonRendered :: "AppState \<Rightarrow> bool" where
  "sealButtonRendered s = (dashboardRendered s \<and> \<not> truthyStr (certifiedPdfUrl s))"

definition sealButtonDisabled :: "AppState \<Rightarrow> bool" where
  "sealButtonDisabled s = (step s \<noteq> REVIEW)"

text \<open>Lines 515 to 534: the minting button.\<close>

definition mintButtonRendered :: "AppState \<Rightarrow> bool" where
  "mintButtonRendered s = (dashboardRendered s \<and> \<not> truthyStr (txHash s))"

definition mintButtonDisabled :: "AppState \<Rightarrow> bool" where
  "mintButtonDisabled s = (step s \<noteq> CERTIFIED \<or> truthyStr (txHash s))"

text \<open>Line 539: the audit package, with the reset button, once there is a transaction hash.\<close>

definition auditPackageRendered :: "AppState \<Rightarrow> bool" where
  "auditPackageRendered s = (dashboardRendered s \<and> truthyStr (txHash s))"

fun enabled :: "UiEvent \<Rightarrow> AppState \<Rightarrow> bool" where
  "enabled (DropFiles clk files ho po) s = (step s = IDLE)"
| "enabled (ChooseFiles clk files ho po) s = (step s = IDLE)"
| "enabled (ClickSeal clk so url) s = (sealButtonRendered s \<and> \<not> sealButtonDisabled s)"
| "enabled (ClickMint clk wo mo) s = (mintButtonRendered s \<and> \<not> mintButtonDisabled s)"
| "enabled (ClickConnect clk wo) s = True"
| "enabled (ClickAuditReport clk ro url) s = auditPackageRendered s"
| "enabled (ClickWhitePaper clk ro url) s = auditPackageRendered s"
| "enabled (ClickReportConfig ty) s = auditPackageRendered s"
| "enabled (SubmitReportConfig clk reportData ro url) s = showReportConfig s"
| "enabled CloseReportConfig s = showReportConfig s"
| "enabled ClickReset s = auditPackageRendered s"
| "enabled ClickShowMetadata s = dashboardRendered s"
| "enabled CloseMetadata s = (showMetadata s \<and> fileData s \<noteq> None)"
| "enabled ClickShowQR s =
     (dashboardRendered s \<and> (truthyStr (certifiedPdfUrl s) \<or> truthyStr (txHash s)))"
| "enabled CloseQR s = (showQRModal s \<and> fileData s \<noteq> None)"
| "enabled AcknowledgeAlert s = (errorDetails s \<noteq> None)"
| "enabled ClickToggleTheme s = True"

fun handler :: "Runtime \<Rightarrow> UiEvent \<Rightarrow> AppState \<Rightarrow> Exec" where
  "handler rt (DropFiles clk files ho po) s = handleDrop rt clk files ho po s"
| "handler rt (ChooseFiles clk files ho po) s = handleFileInput rt clk files ho po s"
| "handler rt (ClickSeal clk so url) s = handleCertification rt clk so url s"
| "handler rt (ClickMint clk wo mo) s = handleMinting rt clk wo mo s"
| "handler rt (ClickConnect clk wo) s = handleWalletConnect rt clk wo (start s)"
| "handler rt (ClickAuditReport clk ro url) s = downloadAuditReport rt clk ro url s"
| "handler rt (ClickWhitePaper clk ro url) s = downloadWhitePaper rt clk ro url s"
| "handler rt (ClickReportConfig ty) s = openReportConfig ty s"
| "handler rt (SubmitReportConfig clk reportData ro url) s =
     handleGenerateSpecializedReport rt clk reportData ro url s"
| "handler rt CloseReportConfig s = setShowReportConfig False (start s)"
| "handler rt ClickReset s = reset s"
| "handler rt ClickShowMetadata s = setShowMetadata True (start s)"
| "handler rt CloseMetadata s = setShowMetadata False (start s)"
| "handler rt ClickShowQR s = setShowQRModal True (start s)"
| "handler rt CloseQR s = setShowQRModal False (start s)"
| "handler rt AcknowledgeAlert s = setErrorDetails None (start s)"
| "handler rt ClickToggleTheme s = toggleTheme s"

text \<open>A control that is not rendered, or a disabled button, fires nothing.\<close>

definition dispatch :: "Runtime \<Rightarrow> UiEvent \<Rightarrow> AppState \<Rightarrow> Exec" where
  "dispatch rt ev s = (if enabled ev s then handler rt ev s else start s)"

text \<open>
  Modelled from the spec: \<^verbatim>\<open>calculateHashes\<close> of \<^verbatim>\<open>./services/cryptoService\<close> is not
  under \<^verbatim>\<open>src/\<close>. By section 4.1 of the specification its two digests are lowercase
  hexadecimal strings of the fixed length of their algorithm, 64 characters for the 256-bit
  digest and 128 for the 512-bit one.
\<close>

definition isDigest :: "nat \<Rightarrow> string \<Rightarrow> bool" where
  "isDigest n h = (length h = n \<and> list_all (\<lambda>c. c \<in> set ''0123456789abcdef'') h)"

definition hashContract :: "JsError + HashResult \<Rightarrow> bool" where
  "hashContract ho =
     (case ho of Inl e \<Rightarrow> True
      | Inr r \<Rightarrow> isDigest 64 (sha256 r) \<and> isDigest 128 (sha512 r))"

fun envContract :: "UiEvent \<Rightarrow> bool" where
  "envContract (DropFiles clk files ho po) = hashContract ho"
| "envContract (ChooseFiles clk files ho po) = hashContract ho"
| "envContract ev = True"


section \<open>Well-formed records\<close>

text \<open>Both digests of a record are set: each is a digest of its algorithm's width.\<close>

definition digestsSet :: "ForensicData \<Rightarrow> bool" where
  "digestsSet d = (isDigest 64 (hashSHA256 d) \<and> isDigest 128 (hashSHA512 d))"

fun recordComplete :: "ForensicData option \<Rightarrow> bool" where
  "recordComplete None = True"
| "recordComplete (Some d) = digestsSet d"

section \<open>Sample inputs\<close>

text \<open>A runtime for the sample runs: every clock reading is the epoch, and the epoch is the
  only date rendered.\<close>

definition sampleRuntime :: Runtime where
  "sampleRuntime =
     \<lparr>toUTCString = (\<lambda>d. if d = Some 0 then ''Thu, 01 Jan 1970 00:00:00 GMT'' else ''Invalid Date''),
      resolveWeb3Error = (\<lambda>e. \<lparr>title = ''Wallet Error'', description = ''The wallet call failed.'',
                                 solution = None\<rparr>)\<rparr>"

definition sampleClock :: "nat \<Rightarrow> int" where
  "sampleClock k = 0"

text \<open>A plain-text file of 10 KiB, all of it the letter a, with its two digests.\<close>

definition sampleTextFile :: File where
  "sampleTextFile =
     \<lparr>file_name = ''notes.txt'', file_size = 10240, file_type = ''text/plain'',
      file_lastModified = 0\<rparr>"

definition sampleTextHashes :: HashResult where
  "sampleTextHashes =
     \<lparr>sha256 = ''7ffe4ce6d10a40a0c0343b1932b4c5636c4a9914f7ad186c09a37dccc5a9a24a'',
      sha512 = ''844e60553e0259787dcbaa5aed5729975baa84817565b8383c54c3a727e410a5b03c9a2ffce6078492a4b5ae0d3e9273683c968ec72ac2b2e306ac12311f1229'',
      arrayBuffer = replicate 10240 0x61\<rparr>"

text \<open>A file declared as PDF that holds only the four bytes of the magic number.\<close>

definition samplePdfFile :: File where
  "samplePdfFile =
     \<lparr>file_name = ''report.pdf'', file_size = 4, file_type = ''application/pdf'',
      file_lastModified = 0\<rparr>"

definition sampleParseError :: JsError where
  "sampleParseError =
     \<lparr>code = JsUndefined, info = JsUndefined, message = Some ''Failed to parse PDF document''\<rparr>"

text \<open>A PDF of 20 KiB that parses: its information dictionary has a title and an author
  and nothing else, and it has twelve pages.\<close>

definition sampleParsedPdfFile :: File where
  "sampleParsedPdfFile =
     \<lparr>file_name = ''quarterly.pdf'', file_size = 20480, file_type = ''application/pdf'',
      file_lastModified = 0\<rparr>"

definition samplePdfInfo :: PdfInfo where
  "samplePdfInfo =
     \<lparr>infoTitle = Some ''Quarterly report'', infoAuthor = Some ''J. Doe'', infoSubject = None,
      infoCreator = None, infoProducer = None, infoCreationDate = None, infoModDate = None,
      infoPageCount = 12\<rparr>"

definition samplePdfRecord :: ForensicData where
  "samplePdfRecord =
     \<lparr>fileName = ''report.pdf'', fileSize = 4, fileType = ''application/pdf'', lastModified = 0,
      hashSHA256 = ''315d429b7714cedb6ad04ac31240145257692630457f3c88253c5beceac76027'',
      hashSHA512 = ''1d162c62d4b915c366cbc08389adb7345bef49b93ac5f6bb7a85d141d9ade5fbb47e0826a7e00be3303612cd70b6a30b4d624064beaf9a6485321bd31bacbea1'',
      timestamp = ''Thu, 01 Jan 1970 00:00:00 GMT'',
      originalBuffer = [0x25, 0x50, 0x44, 0x46],
      metadata = [(''File Name'', ''report.pdf''), (''File Size'', ''0.00 KB''),
                  (''MIME Type'', ''application/pdf''),
                  (''Last Modified'', ''Thu, 01 Jan 1970 00:00:00 GMT''),
                  (''Timestamp (Unix)'', ''0''),
                  (''PDF Analysis'', ''Encrypted or Corrupted Structure'')]\<rparr>"

definition sampleTextRecord :: ForensicData where
  "sampleTextRecord =
     \<lparr>fileName = ''notes.txt'', fileSize = 10240, fileType = ''text/plain'', lastModified = 0,
      hashSHA256 = sha256 sampleTextHashes, hashSHA512 = sha512 sampleTextHashes,
      timestamp = ''Thu, 01 Jan 1970 00:00:00 GMT'',
      originalBuffer = arrayBuffer sampleTextHashes,
      metadata = [(''File Name'', ''notes.txt''), (''File Size'', ''10.00 KB''),
                  (''MIME Type'', ''text/plain''),
                  (''Last Modified'', ''Thu, 01 Jan 1970 00:00:00 GMT''),
                  (''Timestamp (Unix)'', ''0'')]\<rparr>"

text \<open>States holding these records in \<open>REVIEW\<close>, and a certified and anchored session with a
  connected wallet.\<close>

definition samplePdfReview :: AppState where
  "samplePdfReview = initialState\<lparr>step := REVIEW, fileData := Some samplePdfRecord\<rparr>"

definition sampleTextReview :: AppState where
  "sampleTextReview = initialState\<lparr>step := REVIEW, fileData := Some sampleTextRecord\<rparr>"

definition sampleAnchored :: AppState where
  "sampleAnchored =
     initialState
       \<lparr>step := CERTIFIED, fileData := Some sampleTextRecord,
        wallet := \<lparr>address = Some ''0x00000000000000000000000000000000000000a1'',
                   isConnected = True, chainId = Some 1\<rparr>,
        walletSigner := Some (Signer ''0x00000000000000000000000000000000000000a1''),
        txHash := Some ''0x5c504ed432cb51138bcf09aa5e8a410dd4a1e204ef84bfed1be16dfba1b22060'',
        certifiedPdfUrl := Some ''blob:https://lex-sentinel.io/0001''\<rparr>"

text \<open>The first file dropped on the initial page: the sample text file, whose hashing
  succeeds.\<close>

definition sampleDrop :: UiEvent where
  "sampleDrop = DropFiles sampleClock [sampleTextFile] (Inr sampleTextHashes) (PdfThrows sampleParseError)"

definition sampleAnalysed :: AppState where
  "sampleAnalysed = app (dispatch sampleRuntime sampleDrop initialState)"

text \<open>A file one byte over the limit.\<close>

definition sampleLargeFile :: File where
  "sampleLargeFile =
     \<lparr>file_name = ''disk.img'', file_size = 52428801, file_type = ''application/octet-stream'',
      file_lastModified = 0\<rparr>"

section \<open>Number rendering and the attribute map\<close>

lemma show_nat_small: "n < 10 \<Longrightarrow> show_nat n = [digit_char n]"
  by (subst show_nat.simps) simp

lemma show_nat_large:
  "10 \<le> n \<Longrightarrow> show_nat n = show_nat (n div 10) @ [digit_char (n mod 10)]"
  by (subst show_nat.simps) simp

section \<open>The extractor\<close>

lemma systemMetadata_entries:
  "systemMetadata rt file =
     [(''File Name'', file_name file),
      (''File Size'', toFixed2 (file_size file) 1024 @ '' KB''),
      (''MIME Type'', if file_type file \<noteq> [] then file_type file else ''application/octet-stream''),
      (''Last Modified'', toUTCString rt (newDate (file_lastModified file))),
      (''Timestamp (Unix)'', show_int (file_lastModified file))]"
  by (simp add: systemMetadata_def Let_def)

lemma systemMetadata_keys:
  "map fst (systemMetadata rt file) =
     [''File Name'', ''File Size'', ''MIME Type'', ''Last Modified'', ''Timestamp (Unix)'']"
  by (simp add: systemMetadata_entries)

lemma extract_total: "\<exists>m. extractMetadata rt file po = Inr m"
  by (simp add: extractMetadata_def Let_def)

lemma extract_pdf_throws:
  "file_type file = ''application/pdf'' \<Longrightarrow>
   extractMetadata rt file (PdfThrows e) =
     Inr (systemMetadata rt file @ [(''PDF Analysis'', ''Encrypted or Corrupted Structure'')])"
  by (simp add: extractMetadata_def pdfInspection_def systemMetadata_entries Let_def)

lemma extract_plain:
  "file_type file = ''text/plain'' \<Longrightarrow> extractMetadata rt file po = Inr (systemMetadata rt file)"
  by (simp add: extractMetadata_def Let_def)

section \<open>The viewer\<close>

lemma partition_mset: "mset (sensitiveData md) + mset (generalData md) = mset md"
  by (induction md) (auto simp: sensitiveData_def generalData_def)

lemma sensitive_set: "set (sensitiveData md) = {e \<in> set md. fst e \<in> set SENSITIVE_KEYS}"
  by (auto simp: sensitiveData_def)

lemma general_set: "set (generalData md) = {e \<in> set md. fst e \<notin> set SENSITIVE_KEYS}"
  by (auto simp: generalData_def)

lemma sensitive_values:
  "sensitiveData (map (\<lambda>(k, v). (k, f k v)) md) = map (\<lambda>(k, v). (k, f k v)) (sensitiveData md)"
  by (induction md) (auto simp: sensitiveData_def)

lemma general_values:
  "generalData (map (\<lambda>(k, v). (k, f k v)) md) = map (\<lambda>(k, v). (k, f k v)) (generalData md)"
  by (induction md) (auto simp: generalData_def)

lemma system_not_sensitive: "sensitiveData (systemMetadata rt file) = []"
  by (simp add: systemMetadata_entries sensitiveData_def SENSITIVE_KEYS_def)

section \<open>The handlers\<close>

lemmas exec_defs = start_def await_def invoke_def observable_def setStep_def setFileData_def
  setWallet_def setWalletSigner_def setLogs_def setTxHash_def setCertifiedPdfUrl_def
  setIsBiometricScanning_def setShowMetadata_def setShowQRModal_def setShowReportConfig_def
  setReportType_def setErrorDetails_def setIsDarkMode_def addLog_def

lemma handleError_frame:
  "fileData (app (handleError rt now e x)) = fileData (app x)"
  "step (app (handleError rt now e x)) = step (app x)"
  "certifiedPdfUrl (app (handleError rt now e x)) = certifiedPdfUrl (app x)"
  "txHash (app (handleError rt now e x)) = txHash (app x)"
  "wallet (app (handleError rt now e x)) = wallet (app x)"
  "renders (handleError rt now e x) = renders x"
  "calls (handleError rt now e x) = calls x"
  "errorDetails (app (handleError rt now e x)) \<noteq> None"
  "logs (app (handleError rt now e x)) \<noteq> []"
  "log_type (last (logs (app (handleError rt now e x)))) = LogError"
  by (simp_all add: handleError_def Let_def exec_defs)

lemma reset_result:
  "reset s =
     \<lparr>app = s\<lparr>step := IDLE, fileData := None, logs := [], txHash := None,
               certifiedPdfUrl := None, errorDetails := None, showMetadata := False,
               showQRModal := False\<rparr>,
      renders = [], calls = []\<rparr>"
  by (simp add: reset_def Let_def exec_defs)

lemma processFile_too_large:
  "file_size file > MAX_SIZE_BYTES \<Longrightarrow>
   processFile rt clk (Some file) ho po s =
     \<lparr>app = s\<lparr>errorDetails := Some (capacityError file)\<rparr>, renders = [], calls = []\<rparr>"
  by (simp add: processFile_def Let_def exec_defs)

lemma processFile_plain:
  assumes "file_type file = ''text/plain''" "file_size file \<le> MAX_SIZE_BYTES"
  shows "map step (observable (processFile rt clk (Some file) (Inr hr) po s)) =
           [ANALYZING, ANALYZING, ANALYZING, ANALYZING, REVIEW]"
    and "calls (processFile rt clk (Some file) (Inr hr) po s) =
           [CalculateHashes file, ExtractMetadata file (arrayBuffer hr)]"
    and "\<exists>d. fileData (app (processFile rt clk (Some file) (Inr hr) po s)) = Some d \<and>
           hashSHA256 d = sha256 hr \<and> hashSHA512 d = sha512 hr \<and>
           metadata d = systemMetadata rt file"
  using assms by (simp_all add: processFile_def Let_def exec_defs extract_plain)

lemma seal_nonpdf:
  assumes "fileData s = Some fd" "fileType fd \<noteq> ''application/pdf''"
  shows "calls (handleCertification rt clk so url s) =
           [CreateObjectURL (originalBuffer fd) (fileType fd)]"
    and "step (app (handleCertification rt clk so url s)) = CERTIFIED"
    and "certifiedPdfUrl (app (handleCertification rt clk so url s)) = Some url"
    and "fileData (app (handleCertification rt clk so url s)) = Some fd"
    and "errorDetails (app (handleCertification rt clk so url s)) = None"
    and "map step (observable (handleCertification rt clk so url s)) = [step s, CERTIFIED]"
  using assms by (simp_all add: handleCertification_def Let_def exec_defs)

lemma seal_fails:
  assumes "fileData s = Some fd" "fileType fd = ''application/pdf''"
  shows "calls (handleCertification rt clk (Inl e) url s) = [StampPdf fd (address (wallet s))]"
    and "step (app (handleCertification rt clk (Inl e) url s)) = REVIEW"
    and "certifiedPdfUrl (app (handleCertification rt clk (Inl e) url s)) = certifiedPdfUrl s"
    and "fileData (app (handleCertification rt clk (Inl e) url s)) = Some fd"
    and "errorDetails (app (handleCertification rt clk (Inl e) url s)) \<noteq> None"
    and "log_type (last (logs (app (handleCertification rt clk (Inl e) url s)))) = LogError"
    and "map fileData (observable (handleCertification rt clk (Inl e) url s)) =
           [Some fd, Some fd, Some fd]"
  using assms by (simp_all add: handleCertification_def Let_def exec_defs handleError_frame)

lemma seal_without_record:
  "fileData s = None \<Longrightarrow> handleCertification rt clk so url s = start s"
  by (simp add: handleCertification_def)

lemma click_seal_outside_review:
  "step s \<noteq> REVIEW \<Longrightarrow> dispatch rt (ClickSeal clk so url) s = start s"
  by (simp add: dispatch_def sealButtonDisabled_def)

section \<open>What every handler leaves alone\<close>

lemma walletConnect_frame:
  assumes "\<forall>r \<in> set (observable x). fileData r = f \<and> step r = p"
    and "s' \<in> set (observable (handleWalletConnect rt clk wo x))"
  shows "fileData s' = f \<and> step s' = p"
  using assms
  by (auto simp: handleWalletConnect_def Let_def exec_defs handleError_frame split: sum.splits)

lemma minting_frame:
  assumes "s' \<in> set (observable (handleMinting rt clk wo mo s))"
  shows "fileData s' = fileData s \<and> step s' = step s"
proof (cases "\<not> isConnected (wallet s) \<or> walletSigner s = None")
  case True
  let ?x = "setErrorDetails
              (Some \<lparr>title = ''Authentication Required'',
                     description = ''A connected Web3 wallet is required to sign the blockchain transaction.'',
                     solution = Some ''Click the 'Connect Wallet' button in the top right corner.''\<rparr>)
              (setErrorDetails None (start s))"
  from True have eq: "handleMinting rt clk wo mo s = handleWalletConnect rt clk wo ?x"
    by (simp add: handleMinting_def Let_def)
  have "\<forall>r \<in> set (observable ?x). fileData r = fileData s \<and> step r = step s"
    by (simp add: exec_defs)
  then show ?thesis
    using assms unfolding eq by (rule walletConnect_frame)
next
  case False
  then show ?thesis using assms
    by (auto simp: handleMinting_def Let_def exec_defs handleError_frame
             split: sum.splits option.splits)
qed

lemma audit_frame:
  assumes "s' \<in> set (observable (downloadAuditReport rt clk ro url s))"
  shows "fileData s' = fileData s \<and> step s' = step s"
  using assms
  by (auto simp: downloadAuditReport_def Let_def exec_defs handleError_frame
           split: sum.splits option.splits)

lemma whitepaper_frame:
  assumes "s' \<in> set (observable (downloadWhitePaper rt clk ro url s))"
  shows "fileData s' = fileData s \<and> step s' = step s"
  using assms
  by (auto simp: downloadWhitePaper_def Let_def exec_defs handleError_frame
           split: sum.splits option.splits)

lemma specialized_frame:
  assumes "s' \<in> set (observable (handleGenerateSpecializedReport rt clk rd ro url s))"
  shows "fileData s' = fileData s \<and> step s' = step s"
  using assms
  by (auto simp: handleGenerateSpecializedReport_def Let_def exec_defs handleError_frame
           split: sum.splits option.splits if_splits)

lemma certification_frame:
  assumes "s' \<in> set (observable (handleCertification rt clk so url s))"
  shows "fileData s' = fileData s \<and>
         (step s' = step s \<or> step s' = PROCESSING \<or> step s' = CERTIFIED \<or> step s' = REVIEW)"
  using assms
  by (auto simp: handleCertification_def Let_def exec_defs handleError_frame
           split: sum.splits option.splits if_splits)

lemma processFile_writes:
  assumes hc: "hashContract ho"
    and obs: "s' \<in> set (observable (processFile rt clk fo ho po s))"
  shows "fileData s' = fileData s \<or> recordComplete (fileData s')"
proof (cases fo)
  case None
  with obs show ?thesis by (simp add: processFile_def exec_defs)
next
  case (Some fl)
  show ?thesis
  proof (cases "file_size fl > MAX_SIZE_BYTES")
    case True
    with obs Some show ?thesis by (simp add: processFile_def Let_def exec_defs)
  next
    case small: False
    show ?thesis
    proof (cases ho)
      case (Inl e)
      with obs Some small show ?thesis
        by (auto simp: processFile_def Let_def exec_defs handleError_frame)
    next
      case (Inr hr)
      obtain m where m: "extractMetadata rt fl po = Inr m"
        using extract_total by blast
      from hc Inr have dg: "isDigest 64 (sha256 hr)" "isDigest 128 (sha512 hr)"
        by (simp_all add: hashContract_def)
      from obs Some small Inr m dg show ?thesis
        by (auto simp: processFile_def Let_def exec_defs digestsSet_def)
    qed
  qed
qed

lemma handler_writes:
  assumes env: "envContract ev"
    and h: "s' \<in> set (observable (handler rt ev s))"
  shows "fileData s' = fileData s \<or> recordComplete (fileData s')"
proof (cases ev)
  case (DropFiles clk files ho po)
  from DropFiles env have hc: "hashContract ho" by simp
  show ?thesis
  proof (cases files)
    case Nil
    with h DropFiles show ?thesis by (simp add: handleDrop_def exec_defs)
  next
    case (Cons fl rest)
    with h DropFiles have "s' \<in> set (observable (processFile rt clk (Some fl) ho po s))"
      by (simp add: handleDrop_def)
    with hc show ?thesis by (rule processFile_writes)
  qed
next
  case (ChooseFiles clk files ho po)
  from ChooseFiles env have hc: "hashContract ho" by simp
  show ?thesis
  proof (cases files)
    case Nil
    with h ChooseFiles show ?thesis by (simp add: handleFileInput_def exec_defs)
  next
    case (Cons fl rest)
    with h ChooseFiles have "s' \<in> set (observable (processFile rt clk (Some fl) ho po s))"
      by (simp add: handleFileInput_def)
    with hc show ?thesis by (rule processFile_writes)
  qed
next
  case (ClickSeal clk so url)
  with h show ?thesis by (simp add: certification_frame)
next
  case (ClickMint clk wo mo)
  with h show ?thesis by (simp add: minting_frame)
next
  case (ClickConnect clk wo)
  have "\<forall>r \<in> set (observable (start s)). fileData r = fileData s \<and> step r = step s"
    by (simp add: exec_defs)
  moreover from h ClickConnect
  have "s' \<in> set (observable (handleWalletConnect rt clk wo (start s)))" by simp
  ultimately have "fileData s' = fileData s \<and> step s' = step s" by (rule walletConnect_frame)
  then show ?thesis by simp
next
  case (ClickAuditReport clk ro url)
  with h show ?thesis by (simp add: audit_frame)
next
  case (ClickWhitePaper clk ro url)
  with h show ?thesis by (simp add: whitepaper_frame)
next
  case (ClickReportConfig ty)
  with h show ?thesis by (simp add: openReportConfig_def exec_defs)
next
  case (SubmitReportConfig clk rd ro url)
  with h show ?thesis by (simp add: specialized_frame)
next
  case CloseReportConfig
  with h show ?thesis by (simp add: exec_defs)
next
  case ClickReset
  with h show ?thesis by (simp add: reset_result observable_def)
next
  case ClickShowMetadata
  with h show ?thesis by (simp add: exec_defs)
next
  case CloseMetadata
  with h show ?thesis by (simp add: exec_defs)
next
  case ClickShowQR
  with h show ?thesis by (simp add: exec_defs)
next
  case CloseQR
  with h show ?thesis by (simp add: exec_defs)
next
  case AcknowledgeAlert
  with h show ?thesis by (simp add: exec_defs)
next
  case ClickToggleTheme
  with h show ?thesis by (simp add: toggleTheme_def exec_defs)
qed

lemma sampleAnalysed_record:
  "fileData sampleAnalysed = Some sampleTextRecord \<and> step sampleAnalysed = REVIEW"
proof -
  have m: "systemMetadata sampleRuntime sampleTextFile = metadata sampleTextRecord"
    by (simp add: systemMetadata_entries sampleTextFile_def sampleTextRecord_def sampleRuntime_def
                  newDate_def toFixed2_def show_int_def show_nat_small show_nat_large digit_char_def)
  have e: "extractMetadata sampleRuntime sampleTextFile (PdfThrows sampleParseError) =
             Inr (metadata sampleTextRecord)"
    using extract_plain [of sampleTextFile sampleRuntime "PdfThrows sampleParseError"] m
    by (simp add: sampleTextFile_def)
  have s: "sampleAnalysed =
             app (processFile sampleRuntime sampleClock (Some sampleTextFile)
                    (Inr sampleTextHashes) (PdfThrows sampleParseError) initialState)"
    by (simp add: sampleAnalysed_def sampleDrop_def dispatch_def handleDrop_def initialState_def)
  have f: "fileData sampleAnalysed = Some sampleTextRecord"
    unfolding s
    by (simp add: processFile_def Let_def exec_defs e MAX_SIZE_BYTES_def MAX_SIZE_MB_def)
       (simp add: sampleTextFile_def sampleTextRecord_def sampleRuntime_def sampleClock_def)
  have r: "step sampleAnalysed = REVIEW"
    unfolding s
    by (simp add: processFile_def Let_def exec_defs e MAX_SIZE_BYTES_def MAX_SIZE_MB_def)
       (simp add: sampleTextFile_def)
  from f r show ?thesis by simp
qed

section \<open>Classification in the viewer\<close>

text \<open>
  Claim C7. For every attribute map, the viewer's two filters split the entries by whether
  the key is one of the seven listed keys: the sensitive entries are exactly the entries
  whose key is in the list, the general entries exactly the others, no entry is in both,
  together they are the entries of the map with nothing lost, added or changed, and changing
  the values of a map changes the values of the two parts and nothing else.
\<close>

theorem classification_partitions_by_key:
  "SENSITIVE_KEYS =
     [''PDF Author'', ''PDF Creator tool'', ''PDF Producer'', ''Author'', ''Creator'', ''Producer'',
      ''Last Modified By''] \<and>
   set (sensitiveData md) = {e \<in> set md. fst e \<in> set SENSITIVE_KEYS} \<and>
   set (generalData md) = {e \<in> set md. fst e \<notin> set SENSITIVE_KEYS} \<and>
   set (sensitiveData md) \<inter> set (generalData md) = {} \<and>
   mset (sensitiveData md) + mset (generalData md) = mset md \<and>
   sensitiveData (map (\<lambda>(k, v). (k, f k v)) md) = map (\<lambda>(k, v). (k, f k v)) (sensitiveData md) \<and>
   generalData (map (\<lambda>(k, v). (k, f k v)) md) = map (\<lambda>(k, v). (k, f k v)) (generalData md)"
proof -
  have "set (sensitiveData md) \<inter> set (generalData md) = {}"
    by (auto simp: sensitive_set general_set)
  then show ?thesis
    by (simp add: SENSITIVE_KEYS_def[symmetric] sensitive_set general_set partition_mset
                  sensitive_values general_values)
qed

text \<open>On the attributes of the sample PDF record with an author added, the author is the one
  sensitive entry.\<close>

theorem classification_partitions_by_key_witness:
  "sensitiveData (metadata samplePdfRecord @ [(''PDF Author'', ''J. Doe'')]) =
     [(''PDF Author'', ''J. Doe'')] \<and>
   generalData (metadata samplePdfRecord @ [(''PDF Author'', ''J. Doe'')]) = metadata samplePdfRecord \<and>
   mset (sensitiveData (metadata samplePdfRecord @ [(''PDF Author'', ''J. Doe'')])) +
   mset (generalData (metadata samplePdfRecord @ [(''PDF Author'', ''J. Doe'')])) =
     mset (metadata samplePdfRecord @ [(''PDF Author'', ''J. Doe'')])"
proof -
  have a: "sensitiveData (metadata samplePdfRecord @ [(''PDF Author'', ''J. Doe'')]) =
             [(''PDF Author'', ''J. Doe'')]"
    by (simp add: sensitiveData_def samplePdfRecord_def SENSITIVE_KEYS_def)
  have b: "generalData (metadata samplePdfRecord @ [(''PDF Author'', ''J. Doe'')]) =
             metadata samplePdfRecord"
    by (simp add: generalData_def samplePdfRecord_def SENSITIVE_KEYS_def)
  from a b
    classification_partitions_by_key
      [of "metadata samplePdfRecord @ [(''PDF Author'', ''J. Doe'')]" "\<lambda>k v. v"]
  show ?thesis by blast
qed

section \<open>The extractor never fails\<close>

text \<open>
  Claim C3. For every file and whatever the PDF parser does, the extractor returns an
  attribute map and throws nothing. When the file is declared a PDF and the parser throws, the
  map is the five attributes taken from the file descriptor followed by the one entry
  \<^verbatim>\<open>PDF Analysis\<close> that describes the condition.
\<close>

theorem extract_never_throws:
  "(\<exists>m. extractMetadata rt file po = Inr m) \<and>
   (file_type file = ''application/pdf'' \<longrightarrow>
      extractMetadata rt file (PdfThrows e) =
        Inr (systemMetadata rt file @ [(''PDF Analysis'', ''Encrypted or Corrupted Structure'')])) \<and>
   map fst (systemMetadata rt file) =
     [''File Name'', ''File Size'', ''MIME Type'', ''Last Modified'', ''Timestamp (Unix)'']"
  using extract_total [of rt "file" po] extract_pdf_throws [of "file" rt e]
        systemMetadata_keys [of rt "file"]
  by blast

text \<open>The sample PDF, four bytes that do not parse: the attributes are those of the sample
  PDF record.\<close>

theorem extract_never_throws_witness:
  "file_type samplePdfFile = ''application/pdf'' \<and>
   extractMetadata sampleRuntime samplePdfFile (PdfThrows sampleParseError) =
     Inr (metadata samplePdfRecord)"
proof -
  have t: "file_type samplePdfFile = ''application/pdf''"
    by (simp add: samplePdfFile_def)
  have s: "systemMetadata sampleRuntime samplePdfFile @
             [(''PDF Analysis'', ''Encrypted or Corrupted Structure'')] = metadata samplePdfRecord"
    by (simp add: systemMetadata_entries samplePdfFile_def samplePdfRecord_def sampleRuntime_def
                  newDate_def toFixed2_def show_int_def show_nat_small digit_char_def)
  from extract_never_throws [of sampleRuntime samplePdfFile "PdfThrows sampleParseError"
                                sampleParseError] t s
  show ?thesis by simp
qed

section \<open>The optional fields of a PDF\<close>

text \<open>
  Claim C8 says that a field the document does not have is left out of the map. The sample
  PDF parses and has a title and an author, and neither creator, producer, creation date nor
  modification date. The map the extractor returns for it has all four nevertheless:
  \<^verbatim>\<open>PDF Creator tool\<close> and \<^verbatim>\<open>PDF Producer\<close> are the name of the parsing library, and the
  two dates are the time of loading. They are what \<^verbatim>\<open>load\<close> wrote into the loaded document,
  not what the file holds.
\<close>

theorem absent_pdf_fields_are_reported:
  "file_type sampleParsedPdfFile = ''application/pdf'' \<and>
   infoCreator samplePdfInfo = None \<and> infoProducer samplePdfInfo = None \<and>
   infoCreationDate samplePdfInfo = None \<and> infoModDate samplePdfInfo = None \<and>
   extractMetadata sampleRuntime sampleParsedPdfFile (PdfLoaded 0 samplePdfInfo) =
     Inr [(''File Name'', ''quarterly.pdf''),
          (''File Size'', ''20.00 KB''),
          (''MIME Type'', ''application/pdf''),
          (''Last Modified'', ''Thu, 01 Jan 1970 00:00:00 GMT''),
          (''Timestamp (Unix)'', ''0''),
          (''PDF Title'', ''Quarterly report''),
          (''PDF Author'', ''J. Doe''),
          (''PDF Creator tool'', ''pdf-lib (https://github.com/Hopding/pdf-lib)''),
          (''PDF Producer'', ''pdf-lib (https://github.com/Hopding/pdf-lib)''),
          (''PDF Creation Date'', ''Thu, 01 Jan 1970 00:00:00 GMT''),
          (''PDF Mod Date'', ''Thu, 01 Jan 1970 00:00:00 GMT''),
          (''Page Count'', ''12'')]"
proof -
  have s: "systemMetadata sampleRuntime sampleParsedPdfFile =
             [(''File Name'', ''quarterly.pdf''), (''File Size'', ''20.00 KB''),
              (''MIME Type'', ''application/pdf''),
              (''Last Modified'', ''Thu, 01 Jan 1970 00:00:00 GMT''),
              (''Timestamp (Unix)'', ''0'')]"
    by (simp add: systemMetadata_entries sampleParsedPdfFile_def sampleRuntime_def newDate_def
                  toFixed2_def show_int_def show_nat_small show_nat_large digit_char_def)
  have p: "show_nat 12 = ''12''"
    by (simp add: show_nat_small show_nat_large digit_char_def)
  have t: "file_type sampleParsedPdfFile = ''application/pdf''"
    by (simp add: sampleParsedPdfFile_def)
  have e: "extractMetadata sampleRuntime sampleParsedPdfFile (PdfLoaded 0 samplePdfInfo) =
             Inr [(''File Name'', ''quarterly.pdf''),
                  (''File Size'', ''20.00 KB''),
                  (''MIME Type'', ''application/pdf''),
                  (''Last Modified'', ''Thu, 01 Jan 1970 00:00:00 GMT''),
                  (''Timestamp (Unix)'', ''0''),
                  (''PDF Title'', ''Quarterly report''),
                  (''PDF Author'', ''J. Doe''),
                  (''PDF Creator tool'', ''pdf-lib (https://github.com/Hopding/pdf-lib)''),
                  (''PDF Producer'', ''pdf-lib (https://github.com/Hopding/pdf-lib)''),
                  (''PDF Creation Date'', ''Thu, 01 Jan 1970 00:00:00 GMT''),
                  (''PDF Mod Date'', ''Thu, 01 Jan 1970 00:00:00 GMT''),
                  (''Page Count'', ''12'')]"
    by (simp add: extractMetadata_def pdfInspection_def Let_def s t load_def pdfLibName_def
                  samplePdfInfo_def p)
       (simp add: sampleRuntime_def)
  from t e show ?thesis
    by (simp add: samplePdfInfo_def)
qed

section \<open>The size limit\<close>

text \<open>
  Claim C5. For every file larger than 50 MiB, in whatever state it is submitted,
  \<^verbatim>\<open>processFile\<close> only sets the error details to the capacity error: the step and every
  other cell are as before, no state is committed in between, and no service is called,
  neither the hashing nor the extraction, whatever they would have returned.
\<close>

theorem oversized_file_rejected:
  "file_size file > 50 * 1024 * 1024 \<Longrightarrow>
   processFile rt clk (Some file) ho po s =
     \<lparr>app = s\<lparr>errorDetails := Some (capacityError file)\<rparr>, renders = [], calls = []\<rparr> \<and>
   title (capacityError file) = ''Storage Capacity Exceeded'' \<and>
   step (app (processFile rt clk (Some file) ho po s)) = step s \<and>
   fileData (app (processFile rt clk (Some file) ho po s)) = fileData s \<and>
   calls (processFile rt clk (Some file) ho po s) = []"
  by (simp add: processFile_too_large MAX_SIZE_BYTES_def MAX_SIZE_MB_def capacityError_def)

text \<open>A file of 50 MiB and one byte, dropped on the initial page: the page stays \<open>IDLE\<close>.\<close>

theorem oversized_file_rejected_witness:
  "file_size sampleLargeFile > 50 * 1024 * 1024 \<and>
   step (app (processFile sampleRuntime sampleClock (Some sampleLargeFile)
                (Inr sampleTextHashes) (PdfThrows sampleParseError) initialState)) = IDLE \<and>
   calls (processFile sampleRuntime sampleClock (Some sampleLargeFile)
            (Inr sampleTextHashes) (PdfThrows sampleParseError) initialState) = []"
proof -
  have h: "file_size sampleLargeFile > 50 * 1024 * 1024"
    by (simp add: sampleLargeFile_def)
  have i: "step initialState = IDLE"
    by (simp add: initialState_def)
  from oversized_file_rejected [OF h, of sampleRuntime sampleClock "Inr sampleTextHashes"
                                  "PdfThrows sampleParseError" initialState] h i
  show ?thesis by simp
qed

section \<open>Sealing\<close>

text \<open>
  Claim C6. For every state holding a record whose type is not \<^verbatim>\<open>application/pdf\<close>, the
  sealing handler calls no stamping service: the one call it makes hands the bytes of the
  original buffer, unchanged, with the record's own type to \<^verbatim>\<open>URL.createObjectURL\<close>; the
  handler ends in \<open>CERTIFIED\<close> with the URL stored, no error and the record as it was.
\<close>

theorem seal_nonpdf_passthrough:
  assumes "fileData s = Some fd" and "fileType fd \<noteq> ''application/pdf''"
  shows "calls (handleCertification rt clk so url s) =
           [CreateObjectURL (originalBuffer fd) (fileType fd)] \<and>
         step (app (handleCertification rt clk so url s)) = CERTIFIED \<and>
         certifiedPdfUrl (app (handleCertification rt clk so url s)) = Some url \<and>
         errorDetails (app (handleCertification rt clk so url s)) = None \<and>
         fileData (app (handleCertification rt clk so url s)) = Some fd"
  using seal_nonpdf [OF assms] by simp

text \<open>The sample text record in review.\<close>

theorem seal_nonpdf_passthrough_witness:
  "fileData sampleTextReview = Some sampleTextRecord \<and>
   fileType sampleTextRecord \<noteq> ''application/pdf'' \<and>
   calls (handleCertification sampleRuntime sampleClock (Inl sampleParseError)
            ''blob:https://lex-sentinel.io/0001'' sampleTextReview) =
     [CreateObjectURL (replicate 10240 0x61) ''text/plain''] \<and>
   step (app (handleCertification sampleRuntime sampleClock (Inl sampleParseError)
                ''blob:https://lex-sentinel.io/0001'' sampleTextReview)) = CERTIFIED"
proof -
  have a: "fileData sampleTextReview = Some sampleTextRecord"
    by (simp add: sampleTextReview_def)
  have b: "fileType sampleTextRecord \<noteq> ''application/pdf''"
    by (simp add: sampleTextRecord_def)
  have c: "originalBuffer sampleTextRecord = replicate 10240 0x61"
          "fileType sampleTextRecord = ''text/plain''"
    by (simp_all add: sampleTextRecord_def sampleTextHashes_def)
  from seal_nonpdf_passthrough [OF a b, of sampleRuntime sampleClock "Inl sampleParseError"
                                  "''blob:https://lex-sentinel.io/0001''"] a b c
  show ?thesis by simp
qed

text \<open>
  Claim C4. For every state holding a PDF record, when \<^verbatim>\<open>stampPdf\<close> throws: the error
  details are set and an error line ends the log, the handler ends in \<open>REVIEW\<close>, the record
  is the one held before, in the final state and in every state committed on the way, the
  certified URL is as before, and the only call made is the one to \<^verbatim>\<open>stampPdf\<close>: no blob
  is created.
\<close>

theorem seal_failure_returns_to_review:
  assumes "fileData s = Some fd" and "fileType fd = ''application/pdf''"
  shows "errorDetails (app (handleCertification rt clk (Inl e) url s)) \<noteq> None \<and>
         log_type (last (logs (app (handleCertification rt clk (Inl e) url s)))) = LogError \<and>
         step (app (handleCertification rt clk (Inl e) url s)) = REVIEW \<and>
         fileData (app (handleCertification rt clk (Inl e) url s)) = fileData s \<and>
         map fileData (observable (handleCertification rt clk (Inl e) url s)) =
           [fileData s, fileData s, fileData s] \<and>
         certifiedPdfUrl (app (handleCertification rt clk (Inl e) url s)) = certifiedPdfUrl s \<and>
         calls (handleCertification rt clk (Inl e) url s) = [StampPdf fd (address (wallet s))]"
  using seal_fails [OF assms] assms(1) by simp

text \<open>The sample PDF record in review, with a stamping engine that cannot parse it.\<close>

theorem seal_failure_returns_to_review_witness:
  "fileData samplePdfReview = Some samplePdfRecord \<and>
   fileType samplePdfRecord = ''application/pdf'' \<and>
   step (app (handleCertification sampleRuntime sampleClock (Inl sampleParseError)
                ''blob:https://lex-sentinel.io/0001'' samplePdfReview)) = REVIEW \<and>
   fileData (app (handleCertification sampleRuntime sampleClock (Inl sampleParseError)
                ''blob:https://lex-sentinel.io/0001'' samplePdfReview)) = Some samplePdfRecord \<and>
   errorDetails (app (handleCertification sampleRuntime sampleClock (Inl sampleParseError)
                ''blob:https://lex-sentinel.io/0001'' samplePdfReview)) \<noteq> None"
proof -
  have a: "fileData samplePdfReview = Some samplePdfRecord"
    by (simp add: samplePdfReview_def)
  have b: "fileType samplePdfRecord = ''application/pdf''"
    by (simp add: samplePdfRecord_def)
  from seal_failure_returns_to_review [OF a b, of sampleRuntime sampleClock sampleParseError
                                         "''blob:https://lex-sentinel.io/0001''"] a b
  show ?thesis by simp
qed

section \<open>Reset\<close>

text \<open>
  Claim C10 says that \<^verbatim>\<open>reset\<close> clears the flags of the open modals. In the anchored sample
  session the reset button is rendered; once \<^verbatim>\<open>openReportConfig\<close> has opened the
  report-configuration modal there, \<^verbatim>\<open>reset\<close> returns to \<open>IDLE\<close> with no record and
  closes the metadata viewer and the QR modal, but the flag of the report-configuration modal is
  still set, so that modal stays rendered. The wallet and its signer are as before.
\<close>

theorem reset_keeps_report_dialog_open:
  "enabled ClickReset (app (openReportConfig SETTLEMENT sampleAnchored)) \<and>
   showReportConfig (app (openReportConfig SETTLEMENT sampleAnchored)) \<and>
   showReportConfig (app (reset (app (openReportConfig SETTLEMENT sampleAnchored)))) \<and>
   step (app (reset (app (openReportConfig SETTLEMENT sampleAnchored)))) = IDLE \<and>
   fileData (app (reset (app (openReportConfig SETTLEMENT sampleAnchored)))) = None \<and>
   \<not> showMetadata (app (reset (app (openReportConfig SETTLEMENT sampleAnchored)))) \<and>
   \<not> showQRModal (app (reset (app (openReportConfig SETTLEMENT sampleAnchored)))) \<and>
   wallet (app (reset (app (openReportConfig SETTLEMENT sampleAnchored)))) = wallet sampleAnchored \<and>
   walletSigner (app (reset (app (openReportConfig SETTLEMENT sampleAnchored)))) =
     walletSigner sampleAnchored"
  by (simp add: reset_result openReportConfig_def exec_defs sampleAnchored_def initialState_def
                auditPackageRendered_def dashboardRendered_def)

section \<open>Analysis of a plain-text file\<close>

text \<open>
  Claim C9, as the code has it. For every file of type \<^verbatim>\<open>text/plain\<close> within the size
  limit whose hashing succeeds, submitted in \<open>IDLE\<close>: the steps shown are \<open>IDLE\<close>, then
  \<open>ANALYZING\<close>, then \<open>REVIEW\<close>; the record holds the two digests the hashing returned and
  exactly five attributes, \<^verbatim>\<open>File Name\<close>, \<^verbatim>\<open>File Size\<close>, \<^verbatim>\<open>MIME Type\<close>,
  \<^verbatim>\<open>Last Modified\<close> and \<^verbatim>\<open>Timestamp (Unix)\<close>; none of them is sensitive.
\<close>

theorem plain_text_analysis:
  assumes "file_type file = ''text/plain''" and "file_size file \<le> MAX_SIZE_BYTES"
    and "step s = IDLE"
  shows "remdups_adj (step s # map step (observable (processFile rt clk (Some file) (Inr hr) po s))) =
           [IDLE, ANALYZING, REVIEW] \<and>
         (\<exists>d. fileData (app (processFile rt clk (Some file) (Inr hr) po s)) = Some d \<and>
              hashSHA256 d = sha256 hr \<and> hashSHA512 d = sha512 hr \<and>
              map fst (metadata d) =
                [''File Name'', ''File Size'', ''MIME Type'', ''Last Modified'', ''Timestamp (Unix)''] \<and>
              length (metadata d) = 5 \<and>
              sensitiveData (metadata d) = [] \<and>
              generalData (metadata d) = metadata d)"
proof -
  from processFile_plain(3) [OF assms(1,2), of rt clk hr po s]
  obtain d where d: "fileData (app (processFile rt clk (Some file) (Inr hr) po s)) = Some d"
    "hashSHA256 d = sha256 hr" "hashSHA512 d = sha512 hr" "metadata d = systemMetadata rt file"
    by blast
  have g: "generalData (systemMetadata rt file) = systemMetadata rt file"
    by (simp add: systemMetadata_entries generalData_def SENSITIVE_KEYS_def)
  have k: "map fst (metadata d) =
             [''File Name'', ''File Size'', ''MIME Type'', ''Last Modified'', ''Timestamp (Unix)'']"
    by (simp add: d(4) systemMetadata_keys)
  from k have n: "length (metadata d) = 5"
    using length_map [of fst "metadata d"] by simp
  have t: "remdups_adj (step s # map step (observable (processFile rt clk (Some file) (Inr hr) po s))) =
             [IDLE, ANALYZING, REVIEW]"
    by (simp add: processFile_plain(1) [OF assms(1,2)] assms(3))
  from t d k n g show ?thesis
    by (simp add: system_not_sensitive)
qed

text \<open>The sample text file of 10 KiB, dropped on the initial page.\<close>

theorem plain_text_analysis_witness:
  "file_type sampleTextFile = ''text/plain'' \<and> file_size sampleTextFile \<le> MAX_SIZE_BYTES \<and>
   step initialState = IDLE \<and>
   remdups_adj (step initialState #
                map step (observable (processFile sampleRuntime sampleClock (Some sampleTextFile)
                                        (Inr sampleTextHashes) (PdfThrows sampleParseError)
                                        initialState))) =
     [IDLE, ANALYZING, REVIEW] \<and>
   (\<exists>d. fileData (app (processFile sampleRuntime sampleClock (Some sampleTextFile)
                          (Inr sampleTextHashes) (PdfThrows sampleParseError) initialState)) =
           Some d \<and>
        length (metadata d) = 5 \<and> sensitiveData (metadata d) = [])"
proof -
  have a: "file_type sampleTextFile = ''text/plain''"
    by (simp add: sampleTextFile_def)
  have b: "file_size sampleTextFile \<le> MAX_SIZE_BYTES"
    by (simp add: sampleTextFile_def MAX_SIZE_BYTES_def MAX_SIZE_MB_def)
  have c: "step initialState = IDLE"
    by (simp add: initialState_def)
  from plain_text_analysis [OF a b c, of sampleRuntime sampleClock sampleTextHashes
                              "PdfThrows sampleParseError"] a b c
  show ?thesis by blast
qed

text \<open>
  The record of the sample text file after its analysis is the sample text record: it has
  five attributes, not four.
\<close>

theorem plain_text_has_five_system_attributes:
  "fileData sampleAnalysed = Some sampleTextRecord \<and>
   step sampleAnalysed = REVIEW \<and>
   map fst (metadata sampleTextRecord) =
     [''File Name'', ''File Size'', ''MIME Type'', ''Last Modified'', ''Timestamp (Unix)''] \<and>
   length (metadata sampleTextRecord) \<noteq> 4"
  using sampleAnalysed_record
  by (simp add: sampleTextRecord_def)

section \<open>The record is never half set\<close>

text \<open>
  Claim C2. The initial state has no record. From every state, whichever handler is fired
  and whatever its calls return, as long as hashing returns digests of the two widths, every
  state the run shows, the final one and those committed while the handler is suspended,
  has either the record the run started with, or no record, or a record with both its SHA-256
  and its SHA-512 digest set; so a run that starts without a half-set record never shows one.
  This holds for an analysis that fails as for one that succeeds.
\<close>

theorem record_digests_set_together:
  assumes "envContract ev" and "s' \<in> set (observable (handler rt ev s))"
  shows "fileData initialState = None \<and>
         (fileData s' = fileData s \<or> recordComplete (fileData s')) \<and>
         (recordComplete (fileData s) \<longrightarrow> recordComplete (fileData s'))"
proof -
  from assms have w: "fileData s' = fileData s \<or> recordComplete (fileData s')"
    by (rule handler_writes)
  then have "recordComplete (fileData s) \<longrightarrow> recordComplete (fileData s')"
    by auto
  with w show ?thesis
    by (simp add: initialState_def)
qed

text \<open>The sample text file dropped on the initial page: the state after its analysis holds a
  record, with both digests.\<close>

theorem record_digests_set_together_witness:
  "envContract sampleDrop \<and>
   sampleAnalysed \<in> set (observable (handler sampleRuntime sampleDrop initialState)) \<and>
   recordComplete (fileData initialState) \<and>
   fileData sampleAnalysed \<noteq> fileData initialState \<and>
   recordComplete (fileData sampleAnalysed)"
proof -
  have e: "envContract sampleDrop"
    by (simp add: sampleDrop_def hashContract_def isDigest_def sampleTextHashes_def)
  have d: "dispatch sampleRuntime sampleDrop initialState = handler sampleRuntime sampleDrop initialState"
    by (simp add: dispatch_def sampleDrop_def initialState_def)
  have o: "sampleAnalysed \<in> set (observable (handler sampleRuntime sampleDrop initialState))"
    by (simp add: sampleAnalysed_def d observable_def)
  have i: "fileData initialState = None"
    by (simp add: initialState_def)
  from record_digests_set_together [OF e o] i
  have "recordComplete (fileData initialState)" "recordComplete (fileData sampleAnalysed)"
    by simp_all
  moreover have "fileData sampleAnalysed \<noteq> fileData initialState"
    using sampleAnalysed_record i by simp
  ultimately show ?thesis using e o by blast
qed

section \<open>Sealing outside review\<close>

text \<open>
  Claim C1, as the code has it. In every state whose step is not \<open>REVIEW\<close> the sealing
  button is disabled or not rendered, so a click on it fires no handler: the state is the
  same, no state is committed and nothing is called; no error is recorded either. The handler
  itself returns at once, with the same effect, whenever there is no record.
\<close>

theorem seal_outside_review_ignored:
  "(step s \<noteq> REVIEW \<longrightarrow> dispatch rt (ClickSeal clk so url) s = start s) \<and>
   (fileData s = None \<longrightarrow> handleCertification rt clk so url s = start s) \<and>
   app (start s) = s \<and> renders (start s) = [] \<and> calls (start s) = []"
  using click_seal_outside_review [of s rt clk so url] seal_without_record [of s rt clk so url]
  by (auto simp: start_def)

text \<open>The initial page, with a stamping engine that would succeed.\<close>

theorem seal_outside_review_ignored_witness:
  "step initialState \<noteq> REVIEW \<and> fileData initialState = None \<and>
   step initialState = IDLE \<and>
   dispatch sampleRuntime (ClickSeal sampleClock (Inr [0x25, 0x50, 0x44, 0x46])
                             ''blob:https://lex-sentinel.io/0001'') initialState =
     start initialState \<and>
   handleCertification sampleRuntime sampleClock (Inr [0x25, 0x50, 0x44, 0x46])
     ''blob:https://lex-sentinel.io/0001'' initialState = start initialState \<and>
   step (app (start initialState)) = IDLE"
proof -
  have a: "step initialState = IDLE" "fileData initialState = None"
    by (simp_all add: initialState_def)
  from seal_outside_review_ignored [of initialState sampleRuntime sampleClock
                                      "Inr [0x25, 0x50, 0x44, 0x46]"
                                      "''blob:https://lex-sentinel.io/0001''"] a
  show ?thesis by simp
qed

text \<open>
  On the initial page, in \<open>IDLE\<close>, neither the click nor the handler records an error: the
  error details stay empty and no line is logged.
\<close>

theorem seal_in_idle_reports_no_error:
  "step initialState = IDLE \<and>
   errorDetails (app (dispatch sampleRuntime
                        (ClickSeal sampleClock (Inr [0x25, 0x50, 0x44, 0x46])
                           ''blob:https://lex-sentinel.io/0001'') initialState)) = None \<and>
   logs (app (dispatch sampleRuntime
                (ClickSeal sampleClock (Inr [0x25, 0x50, 0x44, 0x46])
                   ''blob:https://lex-sentinel.io/0001'') initialState)) = [] \<and>
   errorDetails (app (handleCertification sampleRuntime sampleClock
                        (Inr [0x25, 0x50, 0x44, 0x46]) ''blob:https://lex-sentinel.io/0001''
                        initialState)) = None \<and>
   logs (app (handleCertification sampleRuntime sampleClock
                (Inr [0x25, 0x50, 0x44, 0x46]) ''blob:https://lex-sentinel.io/0001''
                initialState)) = []"
  by (simp add: dispatch_def sealButtonRendered_def dashboardRendered_def handleCertification_def
                start_def initialState_def)

end
